theory Spec2Isabelle
  imports Complex_Main "HOL-Library.Sublist" "HOL-Library.Word" "HOL-Library.Log_Nat"
begin

section \<open>Bounded execution: \<open>tools/run.py\<close>\<close>

subsection \<open>Output truncation\<close>

text \<open>
  Python strings are modelled as \<^typ>\<open>string\<close>, one \<^typ>\<open>char\<close> per character, so that
  \<^const>\<open>length\<close> is Python's \<open>len\<close>.
\<close>

definition TRUNCATED_MESSAGE :: string where
  "TRUNCATED_MESSAGE =
     ''<response clipped><NOTE>Response was truncated to save context.</NOTE>''"

definition MAX_RESPONSE_LEN :: int where
  "MAX_RESPONSE_LEN = 16000"

text \<open>
  The slice \<open>content[:n]\<close>: a non-negative bound keeps the first \<open>n\<close> characters, a negative
  one counts from the end of the string.
\<close>

definition slice_to :: "'a list \<Rightarrow> int \<Rightarrow> 'a list" where
  "slice_to xs n = (if 0 \<le> n then take (nat n) xs else take (nat (int (length xs) + n)) xs)"

text \<open>
  \<open>truncate_after\<close> is \<open>int | None\<close>; the test \<open>not truncate_after\<close> holds for \<open>None\<close> and
  for \<open>0\<close>.
\<close>

definition maybe_truncate :: "string \<Rightarrow> int option \<Rightarrow> string" where
  "maybe_truncate content truncate_after =
     (case truncate_after of
        None \<Rightarrow> content
      | Some n \<Rightarrow>
          if n = 0 \<or> int (length content) \<le> n then content
          else slice_to content n @ TRUNCATED_MESSAGE)"

subsection \<open>Running an operation under a deadline\<close>

text \<open>
  \<open>asyncio.wait_for\<close> either delivers the awaited value or raises \<open>asyncio.TimeoutError\<close>
  when the deadline passes first. Which of the two happens is decided by the environment, so
  it is an input of the model.
\<close>

datatype 'a wait_for = Completed 'a | Expired

text \<open>What \<open>process.communicate()\<close> leaves behind: the return code and the two decoded streams.\<close>

record process =
  returncode :: "int option"
  stdout :: string
  stderr :: string

datatype run_error = TimeoutError string

text \<open>
  The deadline is \<open>float | None\<close>. The type of floats is a parameter \<open>'f\<close>, and so is the text
  \<open>str_float\<close> that an f-string prints for one; \<open>None\<close> prints as \<open>None\<close>.
\<close>

definition format_timeout :: "('f \<Rightarrow> string) \<Rightarrow> 'f option \<Rightarrow> string" where
  "format_timeout str_float timeout =
     (case timeout of None \<Rightarrow> ''None'' | Some t \<Rightarrow> str_float t)"

definition run_shell ::
  "('f \<Rightarrow> string) \<Rightarrow> string \<Rightarrow> 'f option \<Rightarrow> int option \<Rightarrow> process wait_for
     \<Rightarrow> run_error + int \<times> string \<times> string" where
  "run_shell str_float cmd timeout truncate_after waited =
     (case waited of
        Completed p \<Rightarrow>
          Inr (case returncode p of None \<Rightarrow> 0 | Some rc \<Rightarrow> rc,
               maybe_truncate (stdout p) truncate_after,
               maybe_truncate (stderr p) truncate_after)
      | Expired \<Rightarrow>
          Inl (TimeoutError
            (''Command '' @ [CHR 0x27] @ cmd @ [CHR 0x27] @ '' timed out after ''
               @ format_timeout str_float timeout @ '' seconds'')))"

text \<open>
  The operation of \<open>run\<close> is a command line or a callable. A callable is given by its name;
  the value it computes arrives through \<open>wait_for\<close>.
\<close>

datatype operation = Command string | Callable string

datatype 'r outcome = ProcessResult int string string | Result 'r

definition run ::
  "('f \<Rightarrow> string) \<Rightarrow> operation \<Rightarrow> 'f option \<Rightarrow> int option
     \<Rightarrow> process wait_for \<Rightarrow> 'r wait_for \<Rightarrow> run_error + 'r outcome" where
  "run str_float operation timeout truncate_after waited_process waited_call =
     (case operation of
        Command cmd \<Rightarrow>
          (case run_shell str_float cmd timeout truncate_after waited_process of
             Inl e \<Rightarrow> Inl e
           | Inr (rc, out, err) \<Rightarrow> Inr (ProcessResult rc out err))
      | Callable name \<Rightarrow>
          (case waited_call of
             Completed result \<Rightarrow> Inr (Result result)
           | Expired \<Rightarrow>
               Inl (TimeoutError
                 (''Operation timed out after '' @ format_timeout str_float timeout
                    @ '' seconds''))))"

section \<open>The computer tool: \<open>tools/computer.py\<close>\<close>

subsection \<open>Python values and string operations\<close>

text \<open>
  The arguments \<open>text\<close> and \<open>coordinate\<close> reach \<open>__call__\<close> unchecked, so they are arbitrary
  Python values. The checks of the source tell apart \<open>None\<close>, integers (\<open>bool\<close> is a subclass
  of \<open>int\<close>), strings and lists; a tuple and every other object fail them alike.
\<close>

datatype pyval =
    PNone
  | PBool bool
  | PInt int
  | PStr string
  | PList "pyval list"
  | PTuple "pyval list"
  | PObject string

fun isinstance_int :: "pyval \<Rightarrow> bool" where
  "isinstance_int (PInt i) = True"
| "isinstance_int (PBool b) = True"
| "isinstance_int v = False"

fun isinstance_list :: "pyval \<Rightarrow> bool" where
  "isinstance_list (PList vs) = True"
| "isinstance_list v = False"

fun isinstance_str :: "pyval \<Rightarrow> bool" where
  "isinstance_str (PStr s) = True"
| "isinstance_str v = False"

text \<open>The number an \<open>int\<close> stands for; \<open>True\<close> is \<open>1\<close> and \<open>False\<close> is \<open>0\<close>. Only read on integers.\<close>

fun int_value :: "pyval \<Rightarrow> int" where
  "int_value (PInt i) = i"
| "int_value (PBool b) = (if b then 1 else 0)"
| "int_value v = 0"

text \<open>The elements of a list and the characters of a string; only read on those.\<close>

fun items :: "pyval \<Rightarrow> pyval list" where
  "items (PList vs) = vs"
| "items v = []"

fun str_value :: "pyval \<Rightarrow> string" where
  "str_value (PStr s) = s"
| "str_value v = []"

text \<open>
  \<open>str.lower\<close> on the code points that a \<^typ>\<open>char\<close> holds: the letters \<open>A\<close> to \<open>Z\<close> and the
  capital letters of Latin-1 move up by 32.
\<close>

definition lower_char :: "char \<Rightarrow> char" where
  "lower_char c =
     (let n = of_char c :: nat
      in if (65 \<le> n \<and> n \<le> 90) \<or> (192 \<le> n \<and> n \<le> 222 \<and> n \<noteq> 215)
         then char_of (n + 32) else c)"

definition lower :: "string \<Rightarrow> string" where
  "lower s = map lower_char s"

text \<open>
  \<open>str.replace(old, new)\<close> for a non-empty \<open>old\<close>: the occurrences are found from the left
  and do not overlap.
\<close>

function replace :: "string \<Rightarrow> string \<Rightarrow> string \<Rightarrow> string" where
  "replace old new [] = []"
| "replace old new (c # cs) =
     (if old \<noteq> [] \<and> prefix old (c # cs)
      then new @ replace old new (drop (length old) (c # cs))
      else c # replace old new cs)"
  by pat_completeness auto
termination
  by (relation "measure (\<lambda>(old, new, s). length s)") (auto simp: neq_Nil_conv)

text \<open>
  \<open>str.split(sep)\<close> for a separator of one character: the pieces between the separators, in
  order, empty pieces included; a string without separator is the only piece.
\<close>

fun split :: "char \<Rightarrow> string \<Rightarrow> string list" where
  "split sep [] = [[]]"
| "split sep (c # cs) =
     (case split sep cs of
        [] \<Rightarrow> [[]]
      | piece # pieces \<Rightarrow>
          if c = sep then [] # piece # pieces else (c # piece) # pieces)"

text \<open>\<open>str(n)\<close> of an integer: its decimal digits, after a minus sign when it is negative.\<close>

definition digit_char :: "nat \<Rightarrow> char" where
  "digit_char d = ''0123456789'' ! (d mod 10)"

function digits :: "nat \<Rightarrow> string" where
  "digits n = (if n < 10 then [digit_char n] else digits (n div 10) @ [digit_char (n mod 10)])"
  by pat_completeness auto
termination
  by (relation "measure id") auto

definition str_int :: "int \<Rightarrow> string" where
  "str_int i = (if i < 0 then CHR ''-'' # digits (nat (- i)) else digits (nat i))"

subsection \<open>Scaling\<close>

text \<open>
  A float is a binary64 number and is modelled by the rational it denotes. Every operation on
  floats computes the exact result and rounds it to the nearest float, a tie going to the
  float with the even significand. For a rational \<open>q > 0\<close>, \<open>exponent q\<close> is the \<open>e\<close> with
  \<open>2 ^ e \<le> q < 2 ^ (e + 1)\<close>, and the floats around \<open>q\<close> are the multiples of
  \<open>2 ^ (e - 52)\<close>. The range of the exponent of binary64 is not modelled: the sizes and
  coordinates of a screen stay far inside it.
\<close>

definition exponent :: "rat \<Rightarrow> int" where
  "exponent q =
     (let (a, b) = quotient_of q; e = bitlen a - bitlen b
      in if 2 powi e \<le> q then e else e - 1)"

text \<open>
  \<open>round\<close> of a float: the nearest integer, a tie going to the even neighbour.
\<close>

definition py_round :: "rat \<Rightarrow> int" where
  "py_round q =
     (let f = \<lfloor>q\<rfloor>; d = q - of_int f
      in if d < 1 / 2 then f
         else if 1 / 2 < d then f + 1
         else if even f then f else f + 1)"

definition binary64 :: "rat \<Rightarrow> rat" where
  "binary64 q =
     (if q = 0 then 0
      else (let ulp = 2 powi (exponent \<bar>q\<bar> - 52)
            in of_int (py_round (q / ulp)) * ulp))"

text \<open>
  The three operations on numbers that the tool uses: the conversion of an \<open>int\<close> to a
  float, the true division \<open>a / b\<close> of two \<open>int\<close>s, which rounds the exact quotient, and the
  product \<open>i * f\<close> of an \<open>int\<close> and a float, which converts \<open>i\<close> first.
\<close>

definition float_of_int :: "int \<Rightarrow> rat" where
  "float_of_int i = binary64 (of_int i)"

definition truediv :: "int \<Rightarrow> int \<Rightarrow> rat" where
  "truediv a b = binary64 (of_int a / of_int b)"

definition mul_int_float :: "int \<Rightarrow> rat \<Rightarrow> rat" where
  "mul_int_float i f = binary64 (float_of_int i * f)"

record ComputerTool =
  width :: int
  height :: int
  display_num :: "int option"
  target_width :: int
  target_height :: int
  scaling_enabled :: bool
  x_scaling_factor :: rat
  y_scaling_factor :: rat

text \<open>\<open>__init__\<close>, given the size that \<open>pyautogui.size()\<close> reports for the primary screen.\<close>

definition init :: "int \<times> int \<Rightarrow> ComputerTool" where
  "init screen =
     \<lparr>width = fst screen, height = snd screen, display_num = Some 1,
      target_width = 1280, target_height = 800, scaling_enabled = True,
      x_scaling_factor = truediv (fst screen) 1280,
      y_scaling_factor = truediv (snd screen) 800\<rparr>"

definition scale_coordinates :: "ComputerTool \<Rightarrow> int \<Rightarrow> int \<Rightarrow> int \<times> int" where
  "scale_coordinates self x y =
     (if \<not> scaling_enabled self then (x, y)
      else (py_round (mul_int_float x (x_scaling_factor self)),
            py_round (mul_int_float y (y_scaling_factor self))))"

subsection \<open>Results, errors and the devices\<close>

text \<open>
  Modelled from the spec: \<open>ToolResult\<close> of \<open>tools/base.py\<close>, whose three optional fields are
  the text output, the error text and the encoded image. The source builds it with the
  keywords \<open>output\<close> and \<open>base64_image\<close>; a field that is not given is \<open>None\<close>.
\<close>

record ToolResult =
  output' :: "string option"
  error :: "string option"
  base64_image :: "string option"

definition ToolResult :: ToolResult where
  "ToolResult = \<lparr>output' = None, error = None, base64_image = None\<rparr>"

text \<open>
  \<open>ToolError\<close> is raised at nine places of \<open>__call__\<close>. Each is a constructor here, holding
  the values that its message interpolates.
\<close>

datatype ToolError =
    CoordinateRequired string
  | TextNotAccepted string
  | NotLengthTwo pyval
  | NotNonNegativeInts pyval
  | OutOfBounds pyval pyval
  | TextRequired string
  | CoordinateNotAccepted string
  | NotString pyval
  | InvalidAction string

text \<open>
  The calls into \<open>pyautogui\<close> that act on the machine, in the order they are made. \<open>Write\<close>
  carries the interval between two characters in milliseconds; \<open>Click n\<close> is \<open>click\<close> with
  \<open>n\<close> clicks.
\<close>

datatype injection =
    MoveTo int int
  | MouseDown
  | MouseUp
  | Hotkey "string list"
  | Press string
  | Write string nat
  | Click nat
  | RightClick
  | MiddleClick

text \<open>
  The machine as the tool sees it: where the pointer is (what \<open>pyautogui.position()\<close>
  returns), what the primary monitor shows (what \<open>mss.grab\<close> returns) and what has been
  injected so far.
\<close>

record 'img machine =
  pointer :: "int \<times> int"
  monitor :: 'img
  injected :: "injection list"

definition inject :: "injection \<Rightarrow> 'img machine \<Rightarrow> 'img machine" where
  "inject e m = m\<lparr>injected := injected m @ [e]\<rparr>"

definition moveTo :: "int \<Rightarrow> int \<Rightarrow> 'img machine \<Rightarrow> 'img machine" where
  "moveTo x y m = inject (MoveTo x y) (m\<lparr>pointer := (x, y)\<rparr>)"

definition TYPING_DELAY_MS :: nat where
  "TYPING_DELAY_MS = 12"

subsection \<open>Screenshots\<close>

text \<open>
  The imaging library is a capability: Lanczos resampling to a given size and PNG encoding
  are its two functions, over its own type of images.
\<close>

record 'img imaging =
  resize :: "'img \<Rightarrow> int \<times> int \<Rightarrow> 'img"
  save_png :: "'img \<Rightarrow> 8 word list"

text \<open>\<open>base64.b64encode\<close>: three bytes become four characters, the last group is padded.\<close>

definition b64_alphabet :: string where
  "b64_alphabet = ''ABCDEFGHIJKLMNOPQRSTUVWXYZabcdefghijklmnopqrstuvwxyz0123456789+/''"

definition b64_char :: "nat \<Rightarrow> char" where
  "b64_char n = b64_alphabet ! (n mod 64)"

fun b64 :: "nat list \<Rightarrow> string" where
  "b64 (a # b # c # rest) =
     [b64_char (a div 4), b64_char (a mod 4 * 16 + b div 16),
      b64_char (b mod 16 * 4 + c div 64), b64_char (c mod 64)] @ b64 rest"
| "b64 [a, b] =
     [b64_char (a div 4), b64_char (a mod 4 * 16 + b div 16), b64_char (b mod 16 * 4), CHR ''='']"
| "b64 [a] = [b64_char (a div 4), b64_char (a mod 4 * 16), CHR ''='', CHR ''='']"
| "b64 [] = []"

definition b64encode :: "8 word list \<Rightarrow> string" where
  "b64encode bytes = b64 (map unat bytes)"

definition screenshot ::
  "ComputerTool \<Rightarrow> 'img imaging \<Rightarrow> 'img machine \<Rightarrow> (ToolError + ToolResult) \<times> 'img machine" where
  "screenshot self pil m =
     (let img = monitor m;
          img = (if scaling_enabled self
                 then resize pil img (target_width self, target_height self) else img);
          base64_image = b64encode (save_png pil img)
      in (Inr (ToolResult\<lparr>base64_image := Some base64_image\<rparr>), m))"

subsection \<open>Dispatch\<close>

text \<open>
  The table \<open>click_functions\<close>; it is only read at its four keys, \<open>double_click\<close> being the
  last.
\<close>

definition click_functions :: "string \<Rightarrow> injection" where
  "click_functions action =
     (if action = ''left_click'' then Click 1
      else if action = ''right_click'' then RightClick
      else if action = ''middle_click'' then MiddleClick
      else Click 2)"

text \<open>
  \<open>__call__\<close>. The action is a string, since nothing enforces the \<open>Literal\<close> annotation. The
  result is what is returned or the \<open>ToolError\<close> raised, together with the machine as the
  call leaves it.
\<close>

definition call ::
  "ComputerTool \<Rightarrow> 'img imaging \<Rightarrow> string \<Rightarrow> pyval \<Rightarrow> pyval \<Rightarrow> 'img machine
     \<Rightarrow> (ToolError + ToolResult) \<times> 'img machine" where
  "call self pil action text coordinate m =
     (if action \<in> {''mouse_move'', ''left_click_drag''} then
        (if coordinate = PNone then (Inl (CoordinateRequired action), m)
         else if text \<noteq> PNone then (Inl (TextNotAccepted action), m)
         else if \<not> isinstance_list coordinate \<or> length (items coordinate) \<noteq> 2
           then (Inl (NotLengthTwo coordinate), m)
         else if \<not> list_all (\<lambda>i. isinstance_int i \<and> 0 \<le> int_value i) (items coordinate)
           then (Inl (NotNonNegativeInts coordinate), m)
         else if width self < int_value (items coordinate ! 0)
               \<or> height self < int_value (items coordinate ! 1)
           then (Inl (OutOfBounds (items coordinate ! 0) (items coordinate ! 1)), m)
         else
           (let (x, y) = scale_coordinates self (int_value (items coordinate ! 0))
                           (int_value (items coordinate ! 1))
            in if action = ''mouse_move'' then (Inr ToolResult, moveTo x y m)
               else (Inr ToolResult, inject MouseUp (moveTo x y (inject MouseDown m)))))
      else if action \<in> {''key'', ''type''} then
        (if text = PNone then (Inl (TextRequired action), m)
         else if coordinate \<noteq> PNone then (Inl (CoordinateNotAccepted action), m)
         else if \<not> isinstance_str text then (Inl (NotString text), m)
         else if action = ''key'' then
           (if sublist ''Command'' (str_value text) \<or> sublist ''command'' (str_value text)
            then (let keys = split (CHR ''+'') (replace ''_l'' [] (lower (str_value text)))
                  in (Inr ToolResult, inject (Hotkey keys) m))
            else (Inr ToolResult, inject (Press (str_value text)) m))
         else screenshot self pil (inject (Write (str_value text) TYPING_DELAY_MS) m))
      else if action \<in> {''left_click'', ''right_click'', ''double_click'', ''middle_click'',
                          ''screenshot'', ''cursor_position''} then
        (if text \<noteq> PNone then (Inl (TextNotAccepted action), m)
         else if coordinate \<noteq> PNone then (Inl (CoordinateNotAccepted action), m)
         else if action = ''screenshot'' then screenshot self pil m
         else if action = ''cursor_position'' then
           (let (x, y) = pointer m;
                (scaled_x, scaled_y) = scale_coordinates self x y
            in (Inr (ToolResult\<lparr>output' :=
                       Some (''X='' @ str_int scaled_x @ '',Y='' @ str_int scaled_y)\<rparr>), m))
         else screenshot self pil (inject (click_functions action) m))
      else (Inl (InvalidAction action), m))"

subsection \<open>The inverse mapping of the specification and two fixtures\<close>

text \<open>
  The specification's \<open>to_logical\<close>, in its words: the inverse divides by the same factors
  and rounds, and is the identity when scaling is disabled. The source has no such function.
\<close>

definition to_logical_spec :: "ComputerTool \<Rightarrow> int \<Rightarrow> int \<Rightarrow> int \<times> int" where
  "to_logical_spec self x y =
     (if \<not> scaling_enabled self then (x, y)
      else (py_round (of_int x / x_scaling_factor self),
            py_round (of_int y / y_scaling_factor self)))"

text \<open>
  The specification's reading of the test in the \<open>key\<close> action: a match on the modifier token
  that ignores case.
\<close>

definition modifier_combination_spec :: "string \<Rightarrow> bool" where
  "modifier_combination_spec text = sublist ''command'' (lower text)"

text \<open>
  The specification's key list, in its words: the locale suffix is stripped and the text is
  split on \<open>+\<close> into the ordered list of key tokens. The suffix is the \<open>_l\<close> that ends a token
  of the lower-cased text, as in \<open>command_l\<close>. A text is plain when \<open>_l\<close> occurs in its
  tokens as that suffix only.
\<close>

definition strip_locale_suffix_spec :: "string \<Rightarrow> string" where
  "strip_locale_suffix_spec key =
     (if suffix ''_l'' key then take (length key - 2) key else key)"

definition keys_spec :: "string \<Rightarrow> string list" where
  "keys_spec text = map strip_locale_suffix_spec (split (CHR ''+'') (lower text))"

definition suffix_only_spec :: "string \<Rightarrow> bool" where
  "suffix_only_spec text =
     list_all (\<lambda>key. \<not> sublist ''_l'' (strip_locale_suffix_spec key))
       (split (CHR ''+'') (lower text))"

text \<open>
  An imaging library whose PNG files are empty and a machine at rest, for the concrete
  instances below.
\<close>

definition blank_imaging :: "unit imaging" where
  "blank_imaging = \<lparr>resize = (\<lambda>img size. img), save_png = (\<lambda>img. [])\<rparr>"

definition idle_machine :: "unit machine" where
  "idle_machine = \<lparr>pointer = (0, 0), monitor = (), injected = []\<rparr>"

section \<open>Properties of truncation\<close>

text \<open>
  Claim C3. For every string \<open>s\<close> and every positive limit \<open>n\<close>: a string of length at most
  \<open>n\<close> is returned unchanged; a longer one is replaced by its first \<open>n\<close> characters followed
  by the fixed notice marker, so the result has length \<open>n\<close> plus the length of the marker and
  its first \<open>n\<close> characters are those of \<open>s\<close>.
\<close>

theorem maybe_truncate_positive_limit:
  "0 < n \<Longrightarrow>
     (int (length s) \<le> n \<longrightarrow> maybe_truncate s (Some n) = s) \<and>
     (n < int (length s) \<longrightarrow>
        maybe_truncate s (Some n) = take (nat n) s @ TRUNCATED_MESSAGE \<and>
        int (length (maybe_truncate s (Some n))) = n + int (length TRUNCATED_MESSAGE) \<and>
        take (nat n) (maybe_truncate s (Some n)) = take (nat n) s)"
  by (auto simp: maybe_truncate_def slice_to_def)

theorem maybe_truncate_positive_limit_witness:
  "(0::int) < 3 \<and> maybe_truncate ''ab'' (Some 3) = ''ab'' \<and>
   maybe_truncate ''abcde'' (Some 3) = ''abc'' @ TRUNCATED_MESSAGE \<and>
   int (length (maybe_truncate ''abcde'' (Some 3))) = 3 + int (length TRUNCATED_MESSAGE) \<and>
   take (nat 3) (maybe_truncate ''abcde'' (Some 3)) = ''abc''"
  using maybe_truncate_positive_limit [of 3 "''ab''"]
    maybe_truncate_positive_limit [of 3 "''abcde''"]
  by simp

text \<open>
  Claim C10. A limit of \<open>None\<close> or of \<open>0\<close> disables truncation: the content is returned
  unchanged, whatever its length, and no notice marker is appended.
\<close>

theorem maybe_truncate_disabled:
  "maybe_truncate s None = s \<and> maybe_truncate s (Some 0) = s"
  by (simp add: maybe_truncate_def)

section \<open>Properties of the deadline\<close>

text \<open>
  Claim C4, as amended. When the deadline of a command passes, \<open>run\<close> raises a
  \<open>TimeoutError\<close> whose message contains the command text and the printed deadline. When the
  deadline of a callable passes, it raises a \<open>TimeoutError\<close> whose message contains the
  printed deadline and nothing of the callable.
\<close>

theorem run_timeout_message:
  "run str_float (Command cmd) timeout truncate_after Expired waited_call
     = Inl (TimeoutError (''Command '' @ [CHR 0x27] @ cmd @ [CHR 0x27] @ '' timed out after ''
              @ format_timeout str_float timeout @ '' seconds''))
   \<and> sublist cmd (''Command '' @ [CHR 0x27] @ cmd @ [CHR 0x27] @ '' timed out after ''
              @ format_timeout str_float timeout @ '' seconds'')
   \<and> sublist (format_timeout str_float timeout)
         (''Command '' @ [CHR 0x27] @ cmd @ [CHR 0x27] @ '' timed out after ''
              @ format_timeout str_float timeout @ '' seconds'')
   \<and> run str_float (Callable name) timeout truncate_after waited_process Expired
     = Inl (TimeoutError (''Operation timed out after '' @ format_timeout str_float timeout
              @ '' seconds''))
   \<and> sublist (format_timeout str_float timeout)
         (''Operation timed out after '' @ format_timeout str_float timeout @ '' seconds'')
   \<and> format_timeout str_float (Some t) = str_float t"
proof -
  have command: "sublist cmd ((''Command '' @ [CHR 0x27]) @ cmd @ ([CHR 0x27]
      @ '' timed out after '' @ format_timeout str_float timeout @ '' seconds''))"
    by (rule sublist_appendI)
  have deadline: "sublist (format_timeout str_float timeout)
      ((''Command '' @ [CHR 0x27] @ cmd @ [CHR 0x27] @ '' timed out after '')
         @ format_timeout str_float timeout @ '' seconds'')"
    by (rule sublist_appendI)
  have deadline': "sublist (format_timeout str_float timeout)
      (''Operation timed out after '' @ format_timeout str_float timeout @ '' seconds'')"
    by (rule sublist_appendI)
  show ?thesis
    using command deadline deadline' by (simp add: run_def run_shell_def format_timeout_def)
qed

text \<open>
  Claim C4 as stated fails for callables: with the deadline printed as \<open>0.1\<close>, the message for
  the callable \<open>fetch_page\<close> does not contain its name, and the callable \<open>render\<close> gets the
  same failure.
\<close>

theorem run_callable_timeout_counterexample:
  "run id (Callable ''fetch_page'') (Some ''0.1'') (Some 16000) Expired (Expired :: unit wait_for)
     = Inl (TimeoutError ''Operation timed out after 0.1 seconds'')
   \<and> \<not> sublist ''fetch_page'' ''Operation timed out after 0.1 seconds''
   \<and> run id (Callable ''render'') (Some ''0.1'') (Some 16000) Expired (Expired :: unit wait_for)
     = run id (Callable ''fetch_page'') (Some ''0.1'') (Some 16000) Expired
         (Expired :: unit wait_for)"
  by (simp add: run_def format_timeout_def sublist_code)

section \<open>Properties of scaling\<close>

lemma py_round_nearest: "\<bar>of_int (py_round q) - q\<bar> \<le> 1 / 2"
proof -
  have "of_int \<lfloor>q\<rfloor> \<le> q" "q < of_int \<lfloor>q\<rfloor> + 1"
    by linarith+
  then show ?thesis
    by (auto simp: py_round_def Let_def abs_le_iff)
qed

lemma exponent_le:
  assumes "0 < q"
  shows "2 powi exponent q \<le> q"
proof -
  obtain a b where ab: "quotient_of q = (a, b)"
    by (cases "quotient_of q")
  then have b: "0 < b" and q: "q = of_int a / of_int b"
    by (simp_all add: quotient_of_denom_pos quotient_of_div)
  with assms have a: "0 < a"
    by (simp add: zero_less_divide_iff)
  have "2 ^ nat (bitlen a - 1) \<le> a" and "b < 2 ^ nat (bitlen b)"
    using bitlen_bounds [OF a] bitlen_bounds [OF b] by simp_all
  then have la: "(2::rat) ^ nat (bitlen a - 1) \<le> of_int a"
    and ub: "of_int b \<le> (2::rat) ^ nat (bitlen b)"
    by (metis of_int_le_iff of_int_numeral of_int_power, metis less_imp_le of_int_le_iff of_int_numeral of_int_power)
  have pa: "1 \<le> bitlen a" and pb: "0 \<le> bitlen b"
    using a by (auto simp: bitlen_alt_def bitlen_nonneg)
  have "(2::rat) powi (bitlen a - bitlen b - 1) = 2 powi (bitlen a - 1) / 2 powi bitlen b"
    by (simp add: power_int_diff [symmetric] algebra_simps)
  also have "\<dots> = 2 ^ nat (bitlen a - 1) / 2 ^ nat (bitlen b)"
    using pa pb by (simp add: power_int_def)
  also have "\<dots> \<le> of_int a / of_int b"
    using la ub a b by (intro frac_le) simp_all
  finally have low: "2 powi (bitlen a - bitlen b - 1) \<le> q"
    using q by simp
  show ?thesis
    using low ab by (simp add: exponent_def Let_def)
qed

lemma binary64_error: "\<bar>binary64 q - q\<bar> \<le> \<bar>q\<bar> / 2 ^ 53"
proof (cases "q = 0")
  case True
  then show ?thesis by (simp add: binary64_def)
next
  case False
  define ulp :: rat where "ulp = 2 powi (exponent \<bar>q\<bar> - 52)"
  have pos: "0 < ulp"
    by (simp add: ulp_def)
  have "ulp = 2 powi exponent \<bar>q\<bar> / 2 ^ 52"
    by (simp add: ulp_def power_int_diff)
  also have "\<dots> \<le> \<bar>q\<bar> / 2 ^ 52"
    using exponent_le [of "\<bar>q\<bar>"] False by (simp add: divide_right_mono)
  finally have ulp: "ulp \<le> \<bar>q\<bar> / 2 ^ 52" .
  have "binary64 q - q = (of_int (py_round (q / ulp)) - q / ulp) * ulp"
    using False pos by (simp add: binary64_def ulp_def [symmetric] Let_def algebra_simps)
  then have "\<bar>binary64 q - q\<bar> = \<bar>of_int (py_round (q / ulp)) - q / ulp\<bar> * ulp"
    using pos by (simp add: abs_mult)
  also have "\<dots> \<le> 1 / 2 * ulp"
    using py_round_nearest [of "q / ulp"] pos by (intro mult_right_mono) simp_all
  also have "\<dots> \<le> 1 / 2 * (\<bar>q\<bar> / 2 ^ 52)"
    using ulp by simp
  finally show ?thesis
    by simp
qed

lemma product_error:
  fixes X F a f u :: rat
  assumes X: "0 \<le> X" and F: "0 \<le> F" and u: "0 \<le> u" "u \<le> 1 / 4"
    and a: "\<bar>a - X\<bar> \<le> X * u" and f: "\<bar>f - F\<bar> \<le> F * u"
  shows "\<bar>a * f - X * F\<bar> \<le> 3 * (X * F * u)" and "\<bar>a * f\<bar> \<le> 2 * (X * F)"
proof -
  have nonneg: "0 \<le> X * u" "0 \<le> F * u"
    using X F u by simp_all
  have fa: "\<bar>f\<bar> \<le> F * (1 + u)" and aa: "\<bar>a\<bar> \<le> X * (1 + u)"
    using a f X F nonneg unfolding abs_le_iff by (simp_all add: algebra_simps)
  have "F * (1 + u) \<le> F * 2"
    using F u by (intro mult_left_mono) simp_all
  with fa have f2: "\<bar>f\<bar> \<le> 2 * F"
    by simp
  have "a * f - X * F = (a - X) * f + X * (f - F)"
    by (simp add: algebra_simps)
  then have "\<bar>a * f - X * F\<bar> \<le> \<bar>a - X\<bar> * \<bar>f\<bar> + X * \<bar>f - F\<bar>"
    using X by (metis abs_mult abs_of_nonneg abs_triangle_ineq)
  also have "\<dots> \<le> (X * u) * (2 * F) + X * (F * u)"
    using a f f2 X F u by (intro add_mono mult_mono mult_left_mono) simp_all
  finally show "\<bar>a * f - X * F\<bar> \<le> 3 * (X * F * u)"
    by (simp add: algebra_simps)
  have "(1 + u) * (1 + u) \<le> 2"
  proof -
    have "(1 + u) * (1 + u) \<le> (1 + 1 / 4) * (1 + 1 / 4)"
      using u by (intro mult_mono) simp_all
    then show ?thesis by simp
  qed
  then have "X * F * ((1 + u) * (1 + u)) \<le> X * F * 2"
    using X F by (intro mult_left_mono) simp_all
  moreover have "\<bar>a * f\<bar> \<le> (X * (1 + u)) * (F * (1 + u))"
    unfolding abs_mult using aa fa by (intro mult_mono) simp_all
  ultimately show "\<bar>a * f\<bar> \<le> 2 * (X * F)"
    by (simp add: algebra_simps)
qed

lemma scaled_error:
  assumes "0 \<le> x" "0 \<le> w" "0 < t"
  shows "\<bar>mul_int_float x (truediv w t) - of_int x * (of_int w / of_int t)\<bar>
           \<le> 5 * (of_int x * (of_int w / of_int t)) / 2 ^ 53"
proof -
  define X :: rat where "X = of_int x"
  define F :: rat where "F = of_int w / of_int t"
  define u :: rat where "u = 1 / 2 ^ 53"
  define a where "a = binary64 X"
  define f where "f = binary64 F"
  have X: "0 \<le> X" and F: "0 \<le> F"
    using assms by (simp_all add: X_def F_def)
  have u: "0 \<le> u" "u \<le> 1 / 4"
    by (simp_all add: u_def)
  have a: "\<bar>a - X\<bar> \<le> X * u" and f: "\<bar>f - F\<bar> \<le> F * u"
    using binary64_error [of X] binary64_error [of F] X F by (simp_all add: a_def f_def u_def)
  note pe = product_error [OF X F u a f]
  have "\<bar>binary64 (a * f) - a * f\<bar> \<le> \<bar>a * f\<bar> * u"
    using binary64_error [of "a * f"] by (simp add: u_def)
  also have "\<dots> \<le> 2 * (X * F) * u"
    using pe(2) u by (intro mult_right_mono) simp_all
  finally have "\<bar>binary64 (a * f) - a * f\<bar> \<le> 2 * (X * F * u)"
    by (simp add: algebra_simps)
  with pe(1) have "\<bar>binary64 (a * f) - X * F\<bar> \<le> 5 * (X * F * u)"
    by linarith
  then show ?thesis
    by (simp add: mul_int_float_def float_of_int_def truediv_def a_def f_def X_def F_def u_def)
qed

lemma scaled_nearest:
  assumes "0 \<le> x" "0 \<le> w" "0 < t" "x * w \<le> 2 ^ 49"
  shows "\<bar>of_int (py_round (mul_int_float x (truediv w t))) - of_int x * (of_int w / of_int t)\<bar>
           \<le> (1 / 2 :: rat)"
proof -
  define p where "p = mul_int_float x (truediv w t)"
  define n where "n = py_round p"
  define e :: rat where "e = of_int x * (of_int w / of_int t)"
  have te: "of_int t * e = of_int (x * w)"
    using assms(3) by (simp add: e_def)
  have e0: "0 \<le> e"
    using assms by (simp add: e_def)
  have "of_int t * e \<le> 2 ^ 49"
    unfolding te using assms(4) by (metis of_int_le_iff of_int_numeral of_int_power)
  then have "5 * (of_int t * e) / 2 ^ 53 \<le> 5 * 2 ^ 49 / 2 ^ 53"
    by (intro divide_right_mono mult_left_mono) simp_all
  then have "of_int t * (5 * e / 2 ^ 53) \<le> 5 * 2 ^ 49 / 2 ^ 53"
    by (simp only: times_divide_eq_right mult.left_commute)
  also have "\<dots> < (1 / 2 :: rat)"
    by simp
  finally have small: "of_int t * (5 * e / 2 ^ 53) < 1 / 2" .
  have "\<bar>p - e\<bar> \<le> 5 * e / 2 ^ 53"
    using scaled_error [OF assms(1-3)] by (simp add: p_def e_def)
  moreover have "\<bar>of_int n - p\<bar> \<le> 1 / 2"
    unfolding n_def by (rule py_round_nearest)
  ultimately have "\<bar>of_int n - e\<bar> \<le> 1 / 2 + 5 * e / 2 ^ 53"
    by linarith
  then have "of_int t * \<bar>of_int n - e\<bar> \<le> of_int t * (1 / 2 + 5 * e / 2 ^ 53)"
    using assms(3) by (intro mult_left_mono) simp_all
  also have "\<dots> < of_int t / 2 + 1 / 2"
    using small by (simp add: algebra_simps)
  finally have scaled: "of_int t * \<bar>of_int n - e\<bar> < (of_int t + 1) / 2"
    by (simp add: add_divide_distrib)
  have "\<bar>of_int t * (of_int n - e)\<bar> = of_int t * \<bar>of_int n - e\<bar>"
    using assms(3) by (simp add: abs_mult)
  then have tabs: "of_int t * \<bar>of_int n - e\<bar> = \<bar>of_int (t * n - x * w)\<bar>"
    using te by (simp add: right_diff_distrib)
  from scaled have "2 * \<bar>of_int (t * n - x * w)\<bar> < (of_int (t + 1) :: rat)"
    unfolding tabs by simp
  then have "(of_int (2 * \<bar>t * n - x * w\<bar>) :: rat) < of_int (t + 1)"
    by simp
  then have "2 * \<bar>t * n - x * w\<bar> < t + 1"
    by (simp only: of_int_less_iff)
  then have "2 * \<bar>t * n - x * w\<bar> \<le> t"
    by simp
  then have "(of_int (2 * \<bar>t * n - x * w\<bar>) :: rat) \<le> of_int t"
    by (simp only: of_int_le_iff)
  then have "2 * \<bar>of_int (t * n - x * w)\<bar> \<le> (of_int t :: rat)"
    by simp
  then have "of_int t * (2 * \<bar>of_int n - e\<bar>) \<le> of_int t * (1 :: rat)"
    unfolding tabs [symmetric] by (simp add: algebra_simps)
  then have "2 * \<bar>of_int n - e\<bar> \<le> 1"
    using assms(3) by (simp only: mult_le_cancel_left_pos of_int_0_less_iff)
  then show ?thesis
    by (simp add: n_def p_def e_def)
qed

lemma init_fields:
  "width (init (w, h)) = w" "height (init (w, h)) = h"
  "target_width (init (w, h)) = 1280" "target_height (init (w, h)) = 800"
  "scaling_enabled (init (w, h))"
  "x_scaling_factor (init (w, h)) = truediv w 1280"
  "y_scaling_factor (init (w, h)) = truediv h 800"
  by (simp_all add: init_def)

lemma truediv_examples: "truediv 1920 1280 = 3 / 2" "truediv 1200 800 = 3 / 2"
  by code_simp+

lemma scale_coordinates_examples:
  "scale_coordinates (init (1920, 1200)) 640 400 = (960, 600)"
  "scale_coordinates (init (1920, 1200)) 960 600 = (1440, 900)"
  "scale_coordinates (init (1920, 1200)) 1500 400 = (2250, 600)"
  "scale_coordinates (init (1920, 1080)) 0 350 = (0, 473)"
  by code_simp+

lemma to_logical_spec_example: "to_logical_spec (init (1920, 1200)) 960 600 = (640, 400)"
  by code_simp

lemma str_int_examples: "str_int 1440 = ''1440''" "str_int 900 = ''900''"
  by (simp_all add: str_int_def digit_char_def)

text \<open>
  Claim C5. A tool built by \<open>__init__\<close> for a screen of \<open>w\<close> by \<open>h\<close> pixels has that width
  and height, scaling enabled, the logical resolution 1280 by 800 and the factors \<open>w / 1280\<close>
  and \<open>h / 800\<close>, as floats; \<open>scale_coordinates\<close> maps every \<open>(x, y)\<close> to the rounded float
  products with the factors. For a coordinate in bounds and a screen of up to \<open>2 ^ 30\<close> pixels
  each way, the result is an integer nearest to the exact product \<open>x * w / 1280\<close>, and to
  \<open>y * h / 800\<close>. For a screen of 1920 by 1200 both factors are \<open>3/2\<close> and \<open>(640, 400)\<close> maps to
  \<open>(960, 600)\<close>; for a height of 1080, where the factor \<open>1.35\<close> is not a float, \<open>y = 350\<close> maps
  to \<open>473\<close>.
\<close>

theorem scale_coordinates_formula:
  "width (init (w, h)) = w \<and> height (init (w, h)) = h
   \<and> scaling_enabled (init (w, h))
   \<and> target_width (init (w, h)) = 1280 \<and> target_height (init (w, h)) = 800
   \<and> x_scaling_factor (init (w, h)) = truediv w 1280
   \<and> y_scaling_factor (init (w, h)) = truediv h 800
   \<and> scale_coordinates (init (w, h)) x y
        = (py_round (mul_int_float x (truediv w 1280)),
           py_round (mul_int_float y (truediv h 800)))
   \<and> (0 \<le> x \<and> x \<le> 1280 \<and> 0 \<le> w \<and> w \<le> 2 ^ 30 \<longrightarrow>
        \<bar>of_int (fst (scale_coordinates (init (w, h)) x y))
           - of_int x * (of_int w / of_int 1280)\<bar> \<le> (1 / 2 :: rat))
   \<and> (0 \<le> y \<and> y \<le> 800 \<and> 0 \<le> h \<and> h \<le> 2 ^ 30 \<longrightarrow>
        \<bar>of_int (snd (scale_coordinates (init (w, h)) x y))
           - of_int y * (of_int h / of_int 800)\<bar> \<le> (1 / 2 :: rat))
   \<and> x_scaling_factor (init (1920, 1200)) = 3 / 2
   \<and> y_scaling_factor (init (1920, 1200)) = 3 / 2
   \<and> scale_coordinates (init (1920, 1200)) 640 400 = (960, 600)
   \<and> scale_coordinates (init (1920, 1080)) 0 350 = (0, 473)"
proof -
  have eq: "scale_coordinates (init (w, h)) x y
      = (py_round (mul_int_float x (truediv w 1280)),
         py_round (mul_int_float y (truediv h 800)))"
    by (simp add: scale_coordinates_def init_fields)
  have near_x: "\<bar>of_int (py_round (mul_int_float x (truediv w 1280)))
      - of_int x * (of_int w / of_int 1280)\<bar> \<le> (1 / 2 :: rat)"
    if "0 \<le> x" "x \<le> 1280" "0 \<le> w" "w \<le> 2 ^ 30"
  proof -
    have "x * w \<le> 1280 * 2 ^ 30"
      using that by (intro mult_mono) simp_all
    then have "x * w \<le> 2 ^ 49"
      by simp
    with that show ?thesis
      by (intro scaled_nearest) simp_all
  qed
  have near_y: "\<bar>of_int (py_round (mul_int_float y (truediv h 800)))
      - of_int y * (of_int h / of_int 800)\<bar> \<le> (1 / 2 :: rat)"
    if "0 \<le> y" "y \<le> 800" "0 \<le> h" "h \<le> 2 ^ 30"
  proof -
    have "y * h \<le> 800 * 2 ^ 30"
      using that by (intro mult_mono) simp_all
    then have "y * h \<le> 2 ^ 49"
      by simp
    with that show ?thesis
      by (intro scaled_nearest) simp_all
  qed
  show ?thesis
    unfolding eq fst_conv snd_conv
    using near_x near_y
    by (simp add: init_fields truediv_examples scale_coordinates_examples)
qed

theorem scale_coordinates_formula_witness:
  "width (init (1920, 1080)) = 1920 \<and> height (init (1920, 1080)) = 1080
   \<and> scale_coordinates (init (1920, 1080)) 640 350 = (960, 473)
   \<and> \<bar>of_int (960 :: int) - of_int 640 * (of_int 1920 / of_int 1280)\<bar> \<le> (1 / 2 :: rat)
   \<and> \<bar>of_int (473 :: int) - of_int 350 * (of_int 1080 / of_int 800)\<bar> \<le> (1 / 2 :: rat)"
proof -
  have computed: "scale_coordinates (init (1920, 1080)) 640 350 = (960, 473)"
    by code_simp
  show ?thesis
    using scale_coordinates_formula [of 1920 1080 640 350] unfolding computed by simp
qed

text \<open>
  Claim C1, evaluated on a screen of 1920 by 1200 with the pointer at the physical position
  \<open>(960, 600)\<close>: \<open>cursor_position\<close> passes the position through \<open>scale_coordinates\<close>, the
  mapping from the logical to the physical resolution, and reports \<open>X=1440,Y=900\<close>; the
  inverse mapping gives \<open>(640, 400)\<close>.
\<close>

theorem cursor_position_forward_scaling:
  "call (init (1920, 1200)) pil ''cursor_position'' PNone PNone (m\<lparr>pointer := (960, 600)\<rparr>)
     = (Inr (ToolResult\<lparr>output' := Some ''X=1440,Y=900''\<rparr>), m\<lparr>pointer := (960, 600)\<rparr>)
   \<and> to_logical_spec (init (1920, 1200)) 960 600 = (640, 400)"
  by (simp add: call_def scale_coordinates_examples to_logical_spec_example str_int_examples)

theorem cursor_position_forward_scaling_witness:
  "call (init (1920, 1200)) blank_imaging ''cursor_position'' PNone PNone
     (idle_machine\<lparr>pointer := (960, 600)\<rparr>)
     = (Inr (ToolResult\<lparr>output' := Some ''X=1440,Y=900''\<rparr>),
        idle_machine\<lparr>pointer := (960, 600)\<rparr>)
   \<and> to_logical_spec (init (1920, 1200)) 960 600 = (640, 400)"
  by (rule cursor_position_forward_scaling)

text \<open>
  Claim C2, evaluated on a screen of 1920 by 1200: the coordinate \<open>[1500, 400]\<close> lies beyond
  the logical width 1280, yet \<open>mouse_move\<close> accepts it, because the bound it is compared with
  is the width of the screen, and moves the pointer to \<open>(2250, 600)\<close>.
\<close>

theorem mouse_move_beyond_logical_bound:
  "call (init (1920, 1200)) pil ''mouse_move'' PNone (PList [PInt 1500, PInt 400]) m
     = (Inr ToolResult, moveTo 2250 600 m)
   \<and> target_width (init (1920, 1200)) < 1500"
  by (simp add: call_def scale_coordinates_examples init_fields)

theorem mouse_move_beyond_logical_bound_witness:
  "call (init (1920, 1200)) blank_imaging ''mouse_move'' PNone (PList [PInt 1500, PInt 400])
     idle_machine
     = (Inr ToolResult, moveTo 2250 600 idle_machine)
   \<and> target_width (init (1920, 1200)) < 1500"
  by (rule mouse_move_beyond_logical_bound)

section \<open>Properties of dispatch\<close>

lemma ToolResult_fields:
  "output' ToolResult = None" "error ToolResult = None" "base64_image ToolResult = None"
  by (simp_all add: ToolResult_def)

lemma b64_char_alphabet: "b64_char n \<in> set b64_alphabet"
proof -
  have "length b64_alphabet = 64"
    by (simp add: b64_alphabet_def)
  then show ?thesis
    unfolding b64_char_def by (intro nth_mem) simp
qed

lemma b64_length: "length (b64 ns) = 4 * ((length ns + 2) div 3)"
proof (induction ns rule: b64.induct)
  case (1 a b c rest)
  have "(length (a # b # c # rest) + 2) div 3 = Suc ((length rest + 2) div 3)"
    by simp
  with 1 show ?case by simp
qed simp_all

lemma b64_chars: "set (b64 ns) \<subseteq> insert (CHR ''='') (set b64_alphabet)"
  by (induction ns rule: b64.induct) (simp_all add: b64_char_alphabet)

lemma screenshot_result:
  "screenshot self pil m =
     (Inr \<lparr>output' = None, error = None,
           base64_image = Some (b64encode (save_png pil
             (if scaling_enabled self
              then resize pil (monitor m) (target_width self, target_height self)
              else monitor m)))\<rparr>, m)"
  by (simp add: screenshot_def ToolResult_def Let_def)

lemma action_cases [case_names move key type cursor shot click other]:
  assumes "action \<in> {''mouse_move'', ''left_click_drag''} \<Longrightarrow> P"
    and "action = ''key'' \<Longrightarrow> P"
    and "action = ''type'' \<Longrightarrow> P"
    and "action = ''cursor_position'' \<Longrightarrow> P"
    and "action = ''screenshot'' \<Longrightarrow> P"
    and "action \<in> {''left_click'', ''right_click'', ''double_click'', ''middle_click''} \<Longrightarrow> P"
    and "action \<notin> {''mouse_move'', ''left_click_drag'', ''key'', ''type'', ''left_click'',
           ''right_click'', ''double_click'', ''middle_click'', ''screenshot'',
           ''cursor_position''} \<Longrightarrow> P"
  shows P
  using assms unfolding insert_iff empty_iff by argo

lemma split_not_Nil: "split sep s \<noteq> []"
  by (induction s) (auto split: list.splits)

lemma split_first_prefix: "split sep s = p # ps \<Longrightarrow> prefix p s"
  by (induction s arbitrary: p ps) (auto split: list.splits if_splits)

lemma split_append:
  "sep \<notin> set a \<Longrightarrow> split sep (a @ s) = (a @ hd (split sep s)) # tl (split sep s)"
proof (induction a)
  case Nil
  then show ?case using split_not_Nil [of sep s] by simp
next
  case (Cons c a)
  then show ?case by auto
qed

lemma replace_absent: "\<not> sublist old s \<Longrightarrow> replace old new s = s"
  by (induction s) (auto simp: sublist_Cons_right)

lemma replace_at_prefix: "old \<noteq> [] \<Longrightarrow> replace old [] (old @ s) = replace old [] s"
  by (cases old) simp_all

lemma replace_split:
  assumes "sep \<notin> set old" and "old \<noteq> []"
  shows "split sep (replace old [] s) = map (replace old []) (split sep s)"
  using assms
proof (induction old "[] :: string" s rule: replace.induct)
  case (1 old)
  then show ?case by simp
next
  case (2 old c cs)
  show ?case
  proof (cases "prefix old (c # cs)")
    case True
    define rest where "rest = drop (length old) (c # cs)"
    from True have whole: "c # cs = old @ rest"
      by (auto simp: rest_def prefix_def)
    obtain p ps where pieces: "split sep rest = p # ps"
      using split_not_Nil [of sep rest] by (cases "split sep rest") auto
    have "split sep (replace old [] (c # cs)) = map (replace old []) (split sep rest)"
      using 2 True by (simp add: rest_def)
    also have "\<dots> = replace old [] (old @ p) # map (replace old []) ps"
      using 2(4) pieces by (simp add: replace_at_prefix)
    also have "\<dots> = map (replace old []) (split sep (old @ rest))"
      using 2(3) pieces by (simp add: split_append)
    finally show ?thesis
      by (simp only: whole)
  next
    case False
    obtain p ps where pieces: "split sep cs = p # ps"
      using split_not_Nil [of sep cs] by (cases "split sep cs") auto
    have ih: "split sep (replace old [] cs) = replace old [] p # map (replace old []) ps"
      using 2 False pieces by simp
    have "\<not> prefix old (c # p)"
      using False split_first_prefix [OF pieces] by (meson Cons_prefix_Cons prefix_order.trans)
    then have "replace old [] (c # p) = c # replace old [] p"
      by simp
    with False ih pieces show ?thesis
      by simp
  qed
qed

lemma replace_locale_suffix:
  "\<not> sublist ''_l'' key \<Longrightarrow> replace ''_l'' [] (key @ ''_l'') = key"
proof (induction key)
  case Nil
  show ?case by simp
next
  case (Cons c key)
  then have absent: "\<not> prefix ''_l'' (c # key)" "\<not> sublist ''_l'' key"
    by (simp_all add: sublist_Cons_right)
  have "\<not> prefix ''_l'' (c # (key @ ''_l''))"
  proof (cases key)
    case Nil
    then show ?thesis by simp
  next
    case (Cons d rest)
    with absent(1) show ?thesis by simp
  qed
  then have "replace ''_l'' [] (c # (key @ ''_l'')) = c # replace ''_l'' [] (key @ ''_l'')"
    by (simp only: replace.simps simp_thms if_False)
  with Cons.IH absent(2) show ?case
    by simp
qed

lemma replace_strips:
  assumes "\<not> sublist ''_l'' (strip_locale_suffix_spec key)"
  shows "replace ''_l'' [] key = strip_locale_suffix_spec key"
proof (cases "suffix ''_l'' key")
  case True
  then obtain stem where key: "key = stem @ ''_l''"
    by (auto simp: suffix_def)
  with True have "strip_locale_suffix_spec key = stem"
    by (simp add: strip_locale_suffix_spec_def)
  with assms key show ?thesis
    by (simp add: replace_locale_suffix)
next
  case False
  with assms show ?thesis
    by (simp add: strip_locale_suffix_spec_def replace_absent)
qed

lemma keys_as_spec:
  assumes "suffix_only_spec t"
  shows "split (CHR ''+'') (replace ''_l'' [] (lower t)) = keys_spec t"
proof -
  have "split (CHR ''+'') (replace ''_l'' [] (lower t))
      = map (replace ''_l'' []) (split (CHR ''+'') (lower t))"
    by (rule replace_split) simp_all
  also have "\<dots> = map strip_locale_suffix_spec (split (CHR ''+'') (lower t))"
    using assms by (intro map_cong refl replace_strips) (simp add: suffix_only_spec_def list_all_iff)
  finally show ?thesis
    by (simp add: keys_spec_def)
qed

text \<open>
  Claim C6, as amended. The test for a modifier combination is whether the text contains
  \<open>Command\<close> or \<open>command\<close>, in one of these two spellings. For a \<open>key\<close> action whose text
  passes it and has \<open>_l\<close> as the locale suffix of a token only, the dispatcher issues one key
  combination, of the tokens of the lower-cased text split on \<open>+\<close>, each without its locale
  suffix, in their order; a text that fails the test is pressed as a single literal key. The
  result is empty in both cases. The text \<open>Command_L+q\<close> yields the combination of \<open>command\<close>
  and \<open>q\<close>.
\<close>

theorem key_action_dispatch:
  "((sublist ''Command'' t \<or> sublist ''command'' t) \<and> suffix_only_spec t \<longrightarrow>
      call self pil ''key'' (PStr t) PNone m
        = (Inr ToolResult, inject (Hotkey (keys_spec t)) m))
   \<and> (\<not> (sublist ''Command'' t \<or> sublist ''command'' t) \<longrightarrow>
      call self pil ''key'' (PStr t) PNone m = (Inr ToolResult, inject (Press t) m))
   \<and> call self pil ''key'' (PStr ''Command_L+q'') PNone m
        = (Inr ToolResult, inject (Hotkey [''command'', ''q'']) m)
   \<and> keys_spec ''Command_L+q'' = [''command'', ''q'']"
proof -
  have example: "keys_spec ''Command_L+q'' = [''command'', ''q'']"
    "suffix_only_spec ''Command_L+q''" "sublist ''Command'' ''Command_L+q''"
    by code_simp+
  have combination: "call self pil ''key'' (PStr t) PNone m
      = (Inr ToolResult, inject (Hotkey (keys_spec t)) m)"
    if "sublist ''Command'' t \<or> sublist ''command'' t" and "suffix_only_spec t" for t
    using that by (auto simp: call_def Let_def keys_as_spec)
  have literal: "call self pil ''key'' (PStr t) PNone m = (Inr ToolResult, inject (Press t) m)"
    if "\<not> (sublist ''Command'' t \<or> sublist ''command'' t)"
    using that by (simp add: call_def)
  show ?thesis
    using combination [of t] combination [of "''Command_L+q''"] literal example by simp
qed

theorem key_action_dispatch_witness:
  "call (init (1920, 1200)) blank_imaging ''key'' (PStr ''command+shift_l+q'') PNone idle_machine
     = (Inr ToolResult, inject (Hotkey [''command'', ''shift'', ''q'']) idle_machine)
   \<and> call (init (1920, 1200)) blank_imaging ''key'' (PStr ''Return'') PNone idle_machine
     = (Inr ToolResult, inject (Press ''Return'') idle_machine)"
proof -
  have plain: "sublist ''command'' ''command+shift_l+q''"
    "suffix_only_spec ''command+shift_l+q''"
    "keys_spec ''command+shift_l+q'' = [''command'', ''shift'', ''q'']"
    "\<not> sublist ''Command'' ''Return''" "\<not> sublist ''command'' ''Return''"
    by code_simp+
  show ?thesis
    using key_action_dispatch [of "''command+shift_l+q''" "init (1920, 1200)" blank_imaging
        idle_machine]
      key_action_dispatch [of "''Return''" "init (1920, 1200)" blank_imaging idle_machine]
      plain
    by simp
qed

text \<open>
  Claim C6 as stated fails twice. Where the match has to ignore case: \<open>COMMAND+q\<close> contains
  the modifier token once case is ignored, yet it is pressed as a single literal key and not as
  the combination of \<open>command\<close> and \<open>q\<close>. Where \<open>_l\<close> is not a locale suffix:
  \<open>command+Caps_Lock\<close> yields the key \<open>capsock\<close>, where stripping the suffix leaves
  \<open>caps_lock\<close>.
\<close>

theorem key_case_insensitive_counterexample:
  "modifier_combination_spec ''COMMAND+q''
   \<and> call (init (1920, 1200)) blank_imaging ''key'' (PStr ''COMMAND+q'') PNone idle_machine
     = (Inr ToolResult, inject (Press ''COMMAND+q'') idle_machine)
   \<and> inject (Press ''COMMAND+q'') idle_machine
     \<noteq> inject (Hotkey [''command'', ''q'']) idle_machine
   \<and> call (init (1920, 1200)) blank_imaging ''key'' (PStr ''command+Caps_Lock'') PNone
        idle_machine
     = (Inr ToolResult, inject (Hotkey [''command'', ''capsock'']) idle_machine)
   \<and> keys_spec ''command+Caps_Lock'' = [''command'', ''caps_lock'']"
proof -
  have spec: "modifier_combination_spec ''COMMAND+q''"
    "keys_spec ''command+Caps_Lock'' = [''command'', ''caps_lock'']"
    by code_simp+
  have missed: "\<not> sublist ''Command'' ''COMMAND+q''" "\<not> sublist ''command'' ''COMMAND+q''"
    "sublist ''command'' ''command+Caps_Lock''"
    by code_simp+
  have mangled: "split (CHR ''+'') (replace ''_l'' [] (lower ''command+Caps_Lock''))
      = [''command'', ''capsock'']"
    by code_simp
  show ?thesis
    using spec missed mangled by (simp add: call_def inject_def idle_machine_def)
qed

text \<open>
  Claim C7. A \<open>type\<close> action with a string as text and no coordinate writes the text with the
  typing delay and returns the screenshot: the image is set, to the base64 encoding of the PNG
  file of the monitor's picture (resized to the logical resolution when scaling is enabled),
  and neither output nor error is. A base64 encoding consists of characters of the base64
  alphabet and \<open>=\<close>, four for every three bytes.
\<close>

theorem type_returns_image:
  "call self pil ''type'' (PStr t) PNone m
     = (Inr \<lparr>output' = None, error = None,
             base64_image = Some (b64encode (save_png pil
               (if scaling_enabled self
                then resize pil (monitor m) (target_width self, target_height self)
                else monitor m)))\<rparr>,
        inject (Write t TYPING_DELAY_MS) m)
   \<and> set (b64encode bytes) \<subseteq> insert (CHR ''='') (set b64_alphabet)
   \<and> length (b64encode bytes) = 4 * ((length bytes + 2) div 3)"
  using b64_chars [of "map unat bytes"] b64_length [of "map unat bytes"]
  by (simp add: call_def screenshot_result b64encode_def inject_def)

theorem type_returns_image_witness:
  "call (init (1920, 1200)) blank_imaging ''type'' (PStr ''hello'') PNone idle_machine
     = (Inr \<lparr>output' = None, error = None, base64_image = Some []\<rparr>,
        inject (Write ''hello'' 12) idle_machine)
   \<and> length (b64encode [77, 97, 110, 77]) = 8"
  using type_returns_image [of "init (1920, 1200)" blank_imaging "''hello''" idle_machine
      "[77, 97, 110, 77]"]
  by (simp add: blank_imaging_def b64encode_def TYPING_DELAY_MS_def)

text \<open>
  Claim C8. A result that \<open>__call__\<close> returns never has its error set and has at most one of
  output and image set: it is empty for \<open>mouse_move\<close>, \<open>left_click_drag\<close> and \<open>key\<close>, has
  the output only for \<open>cursor_position\<close>, and the image only for \<open>type\<close>, the four clicks and
  \<open>screenshot\<close>. No other action returns a result.
\<close>

theorem successful_result_payload:
  assumes "call self pil action text coordinate m = (Inr r, m')"
  shows "error r = None \<and> (output' r = None \<or> base64_image r = None)
    \<and> (action \<in> {''mouse_move'', ''left_click_drag'', ''key''} \<longrightarrow> r = ToolResult)
    \<and> (action = ''cursor_position'' \<longrightarrow> output' r \<noteq> None \<and> base64_image r = None)
    \<and> (action \<in> {''type'', ''left_click'', ''right_click'', ''middle_click'', ''double_click'',
                    ''screenshot''} \<longrightarrow> output' r = None \<and> base64_image r \<noteq> None)
    \<and> action \<in> {''mouse_move'', ''left_click_drag'', ''key'', ''cursor_position'', ''type'',
                   ''left_click'', ''right_click'', ''middle_click'', ''double_click'',
                   ''screenshot''}"
proof (cases action rule: action_cases)
  case move
  from move assms show ?thesis
    unfolding insert_iff empty_iff
    by (elim disjE) (auto simp: call_def Let_def ToolResult_fields split: if_splits prod.splits)
next
  case key
  with assms show ?thesis
    by (auto simp: call_def Let_def ToolResult_fields split: if_splits)
next
  case type
  with assms show ?thesis
    by (auto simp: call_def screenshot_result split: if_splits)
next
  case cursor
  with assms show ?thesis
    by (auto simp: call_def ToolResult_def Let_def split: if_splits prod.splits)
next
  case shot
  with assms show ?thesis
    by (auto simp: call_def screenshot_result split: if_splits)
next
  case click
  from click assms show ?thesis
    unfolding insert_iff empty_iff
    by (elim disjE) (auto simp: call_def screenshot_result split: if_splits)
next
  case other
  with assms show ?thesis
    by (simp add: call_def)
qed

theorem successful_result_payload_witness:
  "call (init (1920, 1200)) blank_imaging ''screenshot'' PNone PNone idle_machine
     = (Inr \<lparr>output' = None, error = None, base64_image = Some []\<rparr>, idle_machine)
   \<and> error \<lparr>output' = None, error = None, base64_image = Some []\<rparr> = None
   \<and> output' \<lparr>output' = None, error = None, base64_image = Some []\<rparr> = None
   \<and> base64_image \<lparr>output' = None, error = None, base64_image = Some []\<rparr> \<noteq> None"
proof -
  have returned: "call (init (1920, 1200)) blank_imaging ''screenshot'' PNone PNone idle_machine
      = (Inr \<lparr>output' = None, error = None, base64_image = Some []\<rparr>, idle_machine)"
    by (simp add: call_def screenshot_result blank_imaging_def b64encode_def)
  from successful_result_payload [OF returned] returned show ?thesis
    by simp
qed

text \<open>
  Claim C9, as amended. For \<open>mouse_move\<close> and \<open>left_click_drag\<close>, a coordinate that is not a
  list raises a \<open>ToolError\<close> and leaves the machine as it was, at the first check it fails: an
  absent coordinate is reported as required, a text that is present as not accepted, and every
  other coordinate, a tuple of two non-negative integers in bounds included, fails the shape
  check. So a call that returns a result had a list as coordinate.
\<close>

theorem non_list_coordinate_rejected:
  assumes "action \<in> {''mouse_move'', ''left_click_drag''}" and "\<not> isinstance_list coordinate"
  shows "call self pil action text coordinate m
     = (Inl (if coordinate = PNone then CoordinateRequired action
             else if text \<noteq> PNone then TextNotAccepted action
             else NotLengthTwo coordinate), m)"
  using assms by (auto simp: call_def)

theorem non_list_coordinate_rejected_witness:
  "''mouse_move'' \<in> {''mouse_move'', ''left_click_drag''}
   \<and> \<not> isinstance_list (PTuple [PInt 640, PInt 400])
   \<and> call (init (1920, 1200)) blank_imaging ''mouse_move'' PNone (PTuple [PInt 640, PInt 400])
        idle_machine
     = (Inl (NotLengthTwo (PTuple [PInt 640, PInt 400])), idle_machine)"
proof -
  have action: "''mouse_move'' \<in> {''mouse_move'', ''left_click_drag''}"
    by simp
  have tuple: "\<not> isinstance_list (PTuple [PInt 640, PInt 400])"
    by simp
  from non_list_coordinate_rejected [OF action tuple, of "init (1920, 1200)" blank_imaging PNone
      idle_machine]
  show ?thesis
    using action tuple by simp
qed

text \<open>
  Claim C9 as stated fails when a text is given: the tuple \<open>(640, 400)\<close> with the text \<open>x\<close> is
  rejected because of the text, before the shape check is reached.
\<close>

theorem tuple_with_text_counterexample:
  "\<not> isinstance_list (PTuple [PInt 640, PInt 400])
   \<and> call (init (1920, 1200)) blank_imaging ''mouse_move'' (PStr ''x'')
        (PTuple [PInt 640, PInt 400]) idle_machine
     = (Inl (TextNotAccepted ''mouse_move''), idle_machine)
   \<and> TextNotAccepted ''mouse_move'' \<noteq> NotLengthTwo (PTuple [PInt 640, PInt 400])"
  by (simp add: call_def)

end
